theory Spec2Isabelle
  imports Complex_Main "HOL-Library.AList" "HOL-Library.Multiset"
begin

section \<open>Values, errors and the environment of \<open>nucypher/cli/actions/network.py\<close>\<close>

text \<open>
  The static-node file is read with \<open>json.load\<close>, so the values that flow through
  the functions below are whatever a JSON document can hold. A Python \<open>float\<close> is kept
  only as far as the code can observe it here (its truth value).
\<close>

datatype pyfloat = Finite rat | Infinity | NegInfinity | NaN

datatype json =
    JNull
  | JBool bool
  | JInt int
  | JFloat pyfloat
  | JStr string
  | JArr "json list"
  | JObj "(string \<times> json) list"

text \<open>
  Exceptions as values. \<open>RuntimeError\<close> carries its message, \<open>UnknownIPAddress\<close>
  the status code of the response; \<open>AttributeError\<close> and \<open>TypeError\<close> are the
  interpreter's own; \<open>Raised\<close> stands for any exception thrown by a collaborator outside
  this module (the file system, \<open>requests\<close>, \<open>click\<close>, the peer constructor).
\<close>

datatype error =
    RuntimeError string
  | AttributeError
  | TypeError
  | UnknownIPAddress int
  | Raised string

text \<open>
  What \<open>open(filepath, 'r')\<close> followed by \<open>json.load(file)\<close> can do. Nothing is at
  the path in two of the cases: \<open>FileNotFound\<close>, where \<open>open\<close> raises
  \<open>FileNotFoundError\<close>, and \<open>NotADirectory\<close>, where a component of the path is a regular
  file and \<open>open\<close> raises \<open>NotADirectoryError\<close>. In the others a file is there:
  \<open>ReadFailed\<close> is any other exception of \<open>open\<close> or \<open>json.load\<close>, \<open>InvalidJSON\<close> is
  \<open>JSONDecodeError\<close>, and \<open>Parsed\<close> is the value loaded.
\<close>

datatype file_state =
    FileNotFound
  | NotADirectory
  | InvalidJSON
  | ReadFailed string
  | Parsed json

text \<open>Whether a file exists at a path in that state (\<open>os.path.exists\<close>).\<close>

fun file_exists :: "file_state \<Rightarrow> bool" where
  "file_exists FileNotFound = False"
| "file_exists NotADirectory = False"
| "file_exists InvalidJSON = True"
| "file_exists (ReadFailed x) = True"
| "file_exists (Parsed j) = True"

text \<open>
  The module imports \<open>DEFAULT_CONFIG_ROOT\<close> and \<open>TEACHER_NODES\<close> from modules that are
  not part of the sources; they are parameters here, together with the file system.
  \<open>TEACHER_NODES\<close> maps a domain to its tuple of built-in teacher URIs.
\<close>

record env =
  DEFAULT_CONFIG_ROOT :: string
  TEACHER_NODES :: "string \<Rightarrow> string list option"
  files :: "string \<Rightarrow> file_state"

text \<open>\<open>os.path.join(a, b)\<close> on POSIX, for a relative \<open>b\<close>.\<close>

definition os_path_join :: "string \<Rightarrow> string \<Rightarrow> string" where
  "os_path_join a b = (if a = [] \<or> last a = CHR ''/'' then a @ b else a @ ''/'' @ b)"

text \<open>Python's truth value of a JSON value (\<open>if x:\<close>).\<close>

fun py_truthy :: "json \<Rightarrow> bool" where
  "py_truthy JNull = False"
| "py_truthy (JBool b) = b"
| "py_truthy (JInt i) = (i \<noteq> 0)"
| "py_truthy (JFloat f) = (f \<noteq> Finite 0)"
| "py_truthy (JStr s) = (s \<noteq> [])"
| "py_truthy (JArr xs) = (xs \<noteq> [])"
| "py_truthy (JObj kvs) = (kvs \<noteq> [])"

text \<open>
  Iterating a value, as \<open>list.extend\<close> does with its argument: a list gives its
  elements, a string its characters, a dict its keys, anything else raises \<open>TypeError\<close>.
\<close>

fun py_iter :: "json \<Rightarrow> error + json list" where
  "py_iter (JArr xs) = Inr xs"
| "py_iter (JStr s) = Inr (map (\<lambda>c. JStr [c]) s)"
| "py_iter (JObj kvs) = Inr (map (\<lambda>(k, v). JStr k) kvs)"
| "py_iter JNull = Inl TypeError"
| "py_iter (JBool b) = Inl TypeError"
| "py_iter (JInt i) = Inl TypeError"
| "py_iter (JFloat f) = Inl TypeError"

section \<open>\<open>load_static_nodes\<close>\<close>

text \<open>
  A set of domains is given by the list that enumerates it, in the order in which
  Python iterates the set; \<open>domain in domains\<close> is membership in that list.
  A dict is an association list in insertion order, and the comprehension
  \<open>{domain: uris for domain, uris in static_nodes.items() if domain in domains}\<close>
  inserts the kept entries one by one.
\<close>

definition invalid_json_message :: "string \<Rightarrow> string" where
  "invalid_json_message filepath =
     ''Static nodes file '' @ [CHR 0x27] @ filepath @ [CHR 0x27] @ '' contains invalid JSON.''"

definition filter_domains :: "string list \<Rightarrow> (string \<times> json) list \<Rightarrow> (string \<times> json) list" where
  "filter_domains domains items =
     foldl (\<lambda>d (domain, uris). if domain \<in> set domains then AList.update domain uris d else d)
       [] items"

definition resolve_filepath :: "env \<Rightarrow> string option \<Rightarrow> string" where
  "resolve_filepath e filepath =
     (case filepath of
        None \<Rightarrow> os_path_join (DEFAULT_CONFIG_ROOT e) ''static-nodes.json''
      | Some p \<Rightarrow> if p = [] then os_path_join (DEFAULT_CONFIG_ROOT e) ''static-nodes.json''
                  else p)"

definition load_static_nodes ::
  "env \<Rightarrow> string list \<Rightarrow> string option \<Rightarrow> error + (string \<times> json) list" where
  "load_static_nodes e domains filepath =
     (let filepath = resolve_filepath e filepath in
      case files e filepath of
        FileNotFound \<Rightarrow> Inr []
      | NotADirectory \<Rightarrow> Inl (Raised ''NotADirectoryError'')
      | InvalidJSON \<Rightarrow> Inl (RuntimeError (invalid_json_message filepath))
      | ReadFailed x \<Rightarrow> Inl (Raised x)
      | Parsed static_nodes \<Rightarrow>
          (case static_nodes of
             JObj items \<Rightarrow> Inr (filter_domains domains items)
           | _ \<Rightarrow> Inl AttributeError))"

section \<open>\<open>aggregate_seednode_uris\<close>\<close>

text \<open>
  Python lists are objects: \<open>uris = highest_priority or list()\<close> binds \<open>uris\<close> to the
  caller's list when that is non-empty, and \<open>uris.extend(...)\<close> changes the object in
  place. The store holds the list objects, addressed by their position; an argument of
  type \<open>Optional[List[str]]\<close> is \<open>None\<close> or the address of a list.
\<close>

type_synonym addr = nat
type_synonym store = "json list list"

text \<open>The list at an address; an address outside the store names no list.\<close>

definition deref :: "store \<Rightarrow> addr \<Rightarrow> json list" where
  "deref st r = (if r < length st then st ! r else [])"

text \<open>\<open>list()\<close>: a new, empty list object.\<close>

definition new_list :: "store \<Rightarrow> addr \<times> store" where
  "new_list st = (length st, st @ [[]])"

text \<open>\<open>uris.extend(v)\<close>: nothing is appended when \<open>v\<close> cannot be iterated.\<close>

definition list_extend :: "addr \<Rightarrow> json \<Rightarrow> store \<Rightarrow> (error + unit) \<times> store" where
  "list_extend uris v st =
     (case py_iter v of
        Inl err \<Rightarrow> (Inl err, st)
      | Inr xs \<Rightarrow> (Inr (), st[uris := deref st uris @ xs]))"

text \<open>The body of \<open>for domain in domains\<close>.\<close>

definition extend_for_domain ::
  "env \<Rightarrow> (string \<times> json) list \<Rightarrow> addr \<Rightarrow> string \<Rightarrow> store \<Rightarrow> (error + unit) \<times> store" where
  "extend_for_domain e static_nodes uris domain st =
     (let static_step =
            (case map_of static_nodes domain of
               None \<Rightarrow> (Inr (), st)
             | Some domain_static_nodes \<Rightarrow>
                 if py_truthy domain_static_nodes
                 then list_extend uris domain_static_nodes st
                 else (Inr (), st))
      in case static_step of
           (Inl err, st1) \<Rightarrow> (Inl err, st1)
         | (Inr u, st1) \<Rightarrow>
             (case TEACHER_NODES e domain of
                None \<Rightarrow> (Inr (), st1)
              | Some hardcoded_uris \<Rightarrow>
                  if hardcoded_uris \<noteq> []
                  then list_extend uris (JArr (map JStr hardcoded_uris)) st1
                  else (Inr (), st1)))"

fun extend_for_domains ::
  "env \<Rightarrow> (string \<times> json) list \<Rightarrow> addr \<Rightarrow> string list \<Rightarrow> store \<Rightarrow> (error + unit) \<times> store" where
  "extend_for_domains e static_nodes uris [] st = (Inr (), st)"
| "extend_for_domains e static_nodes uris (domain # domains) st =
     (case extend_for_domain e static_nodes uris domain st of
        (Inl err, st1) \<Rightarrow> (Inl err, st1)
      | (Inr u, st1) \<Rightarrow> extend_for_domains e static_nodes uris domains st1)"

text \<open>\<open>highest_priority or list()\<close>.\<close>

definition priority_or_new :: "addr option \<Rightarrow> store \<Rightarrow> addr \<times> store" where
  "priority_or_new highest_priority st =
     (case highest_priority of
        None \<Rightarrow> new_list st
      | Some p \<Rightarrow> if deref st p \<noteq> [] then (p, st) else new_list st)"

definition aggregate_seednode_uris ::
  "env \<Rightarrow> string list \<Rightarrow> addr option \<Rightarrow> store \<Rightarrow> (error + addr) \<times> store" where
  "aggregate_seednode_uris e domains highest_priority st =
     (case load_static_nodes e domains None of
        Inl err \<Rightarrow> (Inl err, st)
      | Inr static_nodes \<Rightarrow>
          (let (uris, st0) = priority_or_new highest_priority st in
           case extend_for_domains e static_nodes uris domains st0 of
             (Inl err, st1) \<Rightarrow> (Inl err, st1)
           | (Inr u, st1) \<Rightarrow> (Inr uris, st1)))"

text \<open>
  Reading a call's outcome: the contents of the argument list before the call, and the
  sequence the call returns (the contents of the returned list object).
\<close>

definition contents :: "store \<Rightarrow> addr option \<Rightarrow> json list" where
  "contents st highest_priority = (case highest_priority of None \<Rightarrow> [] | Some p \<Rightarrow> deref st p)"

definition returned_sequence :: "(error + addr) \<times> store \<Rightarrow> error + json list" where
  "returned_sequence out =
     (case out of (Inl err, st) \<Rightarrow> Inl err | (Inr r, st) \<Rightarrow> Inr (deref st r))"

text \<open>
  What one domain contributes to the list: the entries of the static file for it, then
  the built-in teachers for it.
\<close>

definition static_uris :: "(string \<times> json) list \<Rightarrow> string \<Rightarrow> error + json list" where
  "static_uris static_nodes domain =
     (case map_of static_nodes domain of
        None \<Rightarrow> Inr []
      | Some v \<Rightarrow> if py_truthy v then py_iter v else Inr [])"

definition hardcoded_uris :: "env \<Rightarrow> string \<Rightarrow> json list" where
  "hardcoded_uris e domain =
     (case TEACHER_NODES e domain of None \<Rightarrow> [] | Some us \<Rightarrow> map JStr us)"

definition domain_uris :: "env \<Rightarrow> (string \<times> json) list \<Rightarrow> string \<Rightarrow> json list" where
  "domain_uris e static_nodes domain =
     (case static_uris static_nodes domain of Inl err \<Rightarrow> [] | Inr xs \<Rightarrow> xs)
       @ hardcoded_uris e domain"

text \<open>
  What the loop has appended when it stops, and the error it stops with, if any.
\<close>

fun appended :: "env \<Rightarrow> (string \<times> json) list \<Rightarrow> string list \<Rightarrow> json list \<times> error option" where
  "appended e static_nodes [] = ([], None)"
| "appended e static_nodes (domain # domains) =
     (case static_uris static_nodes domain of
        Inl err \<Rightarrow> ([], Some err)
      | Inr xs \<Rightarrow>
          (case appended e static_nodes domains of
             (ys, r) \<Rightarrow> (xs @ hardcoded_uris e domain @ ys, r)))"

text \<open>Whether a JSON value is a mapping at its top level.\<close>

fun is_mapping :: "json \<Rightarrow> bool" where
  "is_mapping (JObj kvs) = True"
| "is_mapping _ = False"

section \<open>\<open>load_seednodes\<close>\<close>

text \<open>
  What the emitter is given. The texts \<open>NO_DOMAIN_PEERS\<close>,
  \<open>SEEDNODE_NOT_STAKING_WARNING\<close> and \<open>FORCE_DETECT_URSULA_IP_WARNING\<close>, and the two
  prompts, are templates of a module that is not part of the sources; a message is the
  template together with what fills it.
\<close>

datatype message =
    Connecting
  | NoDomainPeers string
  | FailedToConnect json
  | SeednodeNotStaking json
  | ForceDetectWarning string
  | ConfirmAddress string
  | CollectAddress

type_synonym emitter = "(message \<times> string option) list"

definition emitter_message :: "message \<Rightarrow> string option \<Rightarrow> emitter \<Rightarrow> emitter" where
  "emitter_message m color em = em @ [(m, color)]"

text \<open>\<open>','.join(network_domains)\<close>\<close>

fun comma_join :: "string list \<Rightarrow> string" where
  "comma_join [] = []"
| "comma_join [d] = d"
| "comma_join (d # ds) = d @ '','' @ comma_join ds"

text \<open>
  \<open>Ursula.from_teacher_uri\<close> is a collaborator: it returns a teacher, or raises
  \<open>NodeSeemsToBeDown\<close>, \<open>Teacher.NotStaking\<close> or something else, and it talks to the
  network, whose state is \<open>'w\<close>.
\<close>

datatype 't outcome =
    Constructed 't
  | NodeSeemsToBeDown
  | NotStaking
  | Failed error

record 'w session =
  store :: store
  emitter :: emitter
  net :: 'w

text \<open>The loop \<open>for uri in teacher_uris\<close>, with \<open>teacher_nodes\<close> as accumulator.\<close>

fun construct_ursulas ::
  "(json \<Rightarrow> int \<Rightarrow> bool \<Rightarrow> 'm \<Rightarrow> 'r \<Rightarrow> 'w \<Rightarrow> 't outcome \<times> 'w) \<Rightarrow> int \<Rightarrow> bool \<Rightarrow> 'm \<Rightarrow> 'r
     \<Rightarrow> json list \<Rightarrow> 't list \<Rightarrow> 'w session \<Rightarrow> (error + 't list) \<times> 'w session" where
  "construct_ursulas from_teacher_uri min_stake federated_only network_middleware registry
     [] teacher_nodes s = (Inr teacher_nodes, s)"
| "construct_ursulas from_teacher_uri min_stake federated_only network_middleware registry
     (uri # uris) teacher_nodes s =
     (case from_teacher_uri uri min_stake federated_only network_middleware registry (net s) of
        (Constructed teacher_node, w) \<Rightarrow>
          construct_ursulas from_teacher_uri min_stake federated_only network_middleware registry
            uris (teacher_nodes @ [teacher_node]) (s\<lparr>net := w\<rparr>)
      | (NodeSeemsToBeDown, w) \<Rightarrow>
          construct_ursulas from_teacher_uri min_stake federated_only network_middleware registry
            uris teacher_nodes
            (s\<lparr>net := w, emitter := emitter_message (FailedToConnect uri) None (emitter s)\<rparr>)
      | (NotStaking, w) \<Rightarrow>
          construct_ursulas from_teacher_uri min_stake federated_only network_middleware registry
            uris teacher_nodes
            (s\<lparr>net := w, emitter := emitter_message (SeednodeNotStaking uri) None (emitter s)\<rparr>)
      | (Failed err, w) \<Rightarrow> (Inl err, s\<lparr>net := w\<rparr>))"

definition load_seednodes ::
  "env \<Rightarrow> (json \<Rightarrow> int \<Rightarrow> bool \<Rightarrow> 'm \<Rightarrow> 'r \<Rightarrow> 'w \<Rightarrow> 't outcome \<times> 'w) \<Rightarrow> int \<Rightarrow> bool
     \<Rightarrow> string list \<Rightarrow> 'm \<Rightarrow> addr option \<Rightarrow> 'r \<Rightarrow> 'w session
     \<Rightarrow> (error + 't list) \<times> 'w session" where
  "load_seednodes e from_teacher_uri min_stake federated_only network_domains
     network_middleware teacher_uris registry s =
     (let s1 = s\<lparr>emitter := emitter_message Connecting (Some ''yellow'') (emitter s)\<rparr> in
      case aggregate_seednode_uris e network_domains teacher_uris (store s1) of
        (Inl err, st) \<Rightarrow> (Inl err, s1\<lparr>store := st\<rparr>)
      | (Inr teacher_uris, st) \<Rightarrow>
          (let s2 = s1\<lparr>store := st\<rparr> in
           if deref st teacher_uris = []
           then (Inr [],
                 s2\<lparr>emitter := emitter_message (NoDomainPeers (comma_join network_domains))
                                  None (emitter s2)\<rparr>)
           else
             (case construct_ursulas from_teacher_uri min_stake federated_only
                     network_middleware registry (deref st teacher_uris) [] s2 of
                (Inl err, s3) \<Rightarrow> (Inl err, s3)
              | (Inr teacher_nodes, s3) \<Rightarrow>
                  (Inr teacher_nodes,
                   if teacher_nodes = []
                   then s3\<lparr>emitter := emitter_message
                                         (NoDomainPeers (comma_join network_domains))
                                         None (emitter s3)\<rparr>
                   else s3))))"

text \<open>
  The attempts the loop makes, in order, each with its outcome: it goes on after a
  teacher, a node that is down and a node that is not staking, and stops after any
  other failure.
\<close>

fun attempts :: "(json \<Rightarrow> 'w \<Rightarrow> 't outcome \<times> 'w) \<Rightarrow> json list \<Rightarrow> 'w \<Rightarrow> (json \<times> 't outcome) list" where
  "attempts f [] w = []"
| "attempts f (uri # uris) w =
     (case f uri w of
        (Failed err, w1) \<Rightarrow> [(uri, Failed err)]
      | (out, w1) \<Rightarrow> (uri, out) # attempts f uris w1)"

fun constructed :: "(json \<times> 't outcome) list \<Rightarrow> 't list" where
  "constructed [] = []"
| "constructed ((uri, Constructed t) # tr) = t # constructed tr"
| "constructed ((uri, out) # tr) = constructed tr"

fun first_failure :: "(json \<times> 't outcome) list \<Rightarrow> error option" where
  "first_failure [] = None"
| "first_failure ((uri, Failed err) # tr) = Some err"
| "first_failure ((uri, out) # tr) = first_failure tr"

fun skip_notices :: "(json \<times> 't outcome) list \<Rightarrow> emitter" where
  "skip_notices [] = []"
| "skip_notices ((uri, NodeSeemsToBeDown) # tr) = (FailedToConnect uri, None) # skip_notices tr"
| "skip_notices ((uri, NotStaking) # tr) = (SeednodeNotStaking uri, None) # skip_notices tr"
| "skip_notices ((uri, out) # tr) = skip_notices tr"

section \<open>\<open>determine_external_ip_address\<close>\<close>

record response =
  status_code :: int
  text' :: string

text \<open>
  \<open>requests.get\<close> is a parameter: it answers or raises. So are the user's answer to
  \<open>click.confirm\<close> and the converter \<open>IPV4_ADDRESS\<close> of a module that is not part of
  the sources, which accepts a typed line (giving the value) or rejects it.
\<close>

definition get_external_ip_from_centralized_source ::
  "(string \<Rightarrow> error + response) \<Rightarrow> error + string" where
  "get_external_ip_from_centralized_source requests_get =
     (case requests_get ''https://ifconfig.me/'' of
        Inl err \<Rightarrow> Inl err
      | Inr ip_request \<Rightarrow>
          if status_code ip_request = 200 then Inr (text' ip_request)
          else Inl (UnknownIPAddress (status_code ip_request)))"

text \<open>
  \<open>click.prompt(text, type=t)\<close> reads lines until one is not empty and is accepted by
  \<open>t\<close>, whose value it returns; at the end of the input it raises \<open>Abort\<close>.
\<close>

fun click_prompt :: "(string \<Rightarrow> string option) \<Rightarrow> string list \<Rightarrow> error + string" where
  "click_prompt t [] = Inl (Raised ''Abort'')"
| "click_prompt t (line # lines) =
     (if line = [] then click_prompt t lines
      else case t line of Some v \<Rightarrow> Inr v | None \<Rightarrow> click_prompt t lines)"

text \<open>
  The result is the value returned (\<open>None\<close> where the function falls off its end), the
  emitter, and the prompts shown to the user, in order.
\<close>

definition determine_external_ip_address ::
  "(string \<Rightarrow> error + response) \<Rightarrow> (message \<Rightarrow> error + bool) \<Rightarrow> (string \<Rightarrow> string option)
     \<Rightarrow> string list \<Rightarrow> emitter \<Rightarrow> bool \<Rightarrow> (error + string option) \<times> emitter \<times> message list" where
  "determine_external_ip_address requests_get click_confirm IPV4_ADDRESS typed em force =
     (case get_external_ip_from_centralized_source requests_get of
        Inl (UnknownIPAddress code) \<Rightarrow>
          if force then (Inl (UnknownIPAddress code), em, []) else (Inr None, em, [])
      | Inl err \<Rightarrow> (Inl err, em, [])
      | Inr rest_host \<Rightarrow>
          if \<not> force then
            (case click_confirm (ConfirmAddress rest_host) of
               Inl err \<Rightarrow> (Inl err, em, [ConfirmAddress rest_host])
             | Inr True \<Rightarrow> (Inr (Some rest_host), em, [ConfirmAddress rest_host])
             | Inr False \<Rightarrow>
                 (case click_prompt IPV4_ADDRESS typed of
                    Inl err \<Rightarrow> (Inl err, em, [ConfirmAddress rest_host, CollectAddress])
                  | Inr collected \<Rightarrow>
                      (Inr (Some collected), em, [ConfirmAddress rest_host, CollectAddress])))
          else
            (Inr (Some rest_host),
             emitter_message (ForceDetectWarning rest_host) (Some ''yellow'') em, []))"

section \<open>Concrete scenarios\<close>

text \<open>
  One domain \<open>alpha\<close> with \<open>node://A\<close> in the static file and \<open>node://B\<close> built in;
  the teacher at \<open>node://A\<close> is down, every other URI gives a teacher named by it.
\<close>

definition scenario_env :: env where
  "scenario_env =
     \<lparr>DEFAULT_CONFIG_ROOT = ''/cfg'',
      TEACHER_NODES = [''alpha'' \<mapsto> [''node://B'']],
      files = (\<lambda>p. if p = ''/cfg/static-nodes.json''
                    then Parsed (JObj [(''alpha'', JArr [JStr ''node://A''])])
                    else FileNotFound)\<rparr>"

definition scenario_from_teacher_uri ::
  "json \<Rightarrow> int \<Rightarrow> bool \<Rightarrow> unit \<Rightarrow> unit \<Rightarrow> nat \<Rightarrow> string outcome \<times> nat" where
  "scenario_from_teacher_uri uri min_stake federated_only network_middleware registry w =
     (case uri of
        JStr s \<Rightarrow> if s = ''node://A'' then NodeSeemsToBeDown else Constructed s
      | _ \<Rightarrow> Failed TypeError,
      Suc w)"

text \<open>Two domains with one built-in teacher each, and no static file.\<close>

definition two_domains_env :: env where
  "two_domains_env =
     \<lparr>DEFAULT_CONFIG_ROOT = ''/cfg'',
      TEACHER_NODES = [''alpha'' \<mapsto> [''node://A''], ''beta'' \<mapsto> [''node://B'']],
      files = (\<lambda>p. FileNotFound)\<rparr>"

text \<open>
  File systems for the static-node file: one where nothing is at the given path and a
  mapping is at every other, one where an array is at the given path and a mapping at
  every other, and one where the given path runs through a regular file.
\<close>

definition missing_env :: "string \<Rightarrow> env" where
  "missing_env path =
     \<lparr>DEFAULT_CONFIG_ROOT = ''/cfg'',
      TEACHER_NODES = Map.empty,
      files = (\<lambda>p. if p = path then FileNotFound
                    else Parsed (JObj [(''alpha'', JArr [JStr ''node://A''])]))\<rparr>"

definition array_env :: "string \<Rightarrow> env" where
  "array_env path =
     \<lparr>DEFAULT_CONFIG_ROOT = ''/cfg'',
      TEACHER_NODES = Map.empty,
      files = (\<lambda>p. if p = path then Parsed (JArr [JStr ''node://A''])
                    else Parsed (JObj [(''alpha'', JArr [JStr ''node://A''])]))\<rparr>"

definition not_a_directory_env :: "string \<Rightarrow> env" where
  "not_a_directory_env path =
     \<lparr>DEFAULT_CONFIG_ROOT = ''/cfg'',
      TEACHER_NODES = Map.empty,
      files = (\<lambda>p. if p = path then NotADirectory else FileNotFound)\<rparr>"

text \<open>An address-echo service that answers with the given status and body.\<close>

definition echo_service :: "int \<Rightarrow> string \<Rightarrow> string \<Rightarrow> error + response" where
  "echo_service code body url = Inr \<lparr>status_code = code, text' = body\<rparr>"

section \<open>Properties of \<open>load_static_nodes\<close>\<close>

text \<open>
  C8, as stated: whenever no file exists at the resolved path, \<open>load_static_nodes\<close>
  returns the empty mapping and raises nothing, for every path argument. Only
  \<open>FileNotFoundError\<close> is caught: at a path that runs through a regular file nothing
  exists either, \<open>open\<close> raises \<open>NotADirectoryError\<close>, and that reaches the caller.
\<close>

theorem load_static_nodes_not_a_directory_counterexample:
  "\<not> file_exists (files (not_a_directory_env ''/etc/hostname/static-nodes.json'')
                      ''/etc/hostname/static-nodes.json'')
   \<and> load_static_nodes (not_a_directory_env ''/etc/hostname/static-nodes.json'') [''alpha'']
        (Some ''/etc/hostname/static-nodes.json'')
       = Inl (Raised ''NotADirectoryError'')"
  by (simp add: load_static_nodes_def resolve_filepath_def not_a_directory_env_def)

text \<open>
  C8, amended: if \<open>open\<close> raises \<open>FileNotFoundError\<close> for the resolved path, then
  \<open>load_static_nodes\<close> returns the empty mapping and raises nothing, for every requested
  domain set; the resolved path is the path argument when that is given and not empty,
  and \<open>DEFAULT_CONFIG_ROOT\<close> joined with \<open>static-nodes.json\<close> when it is \<open>None\<close> or
  empty.
\<close>

theorem load_static_nodes_file_not_found:
  "(p \<noteq> [] \<and> files e p = FileNotFound \<longrightarrow> load_static_nodes e domains (Some p) = Inr [])
   \<and> (files e (os_path_join (DEFAULT_CONFIG_ROOT e) ''static-nodes.json'') = FileNotFound \<longrightarrow>
        load_static_nodes e domains None = Inr []
        \<and> load_static_nodes e domains (Some []) = Inr [])"
  by (simp add: load_static_nodes_def resolve_filepath_def)

theorem load_static_nodes_file_not_found_witness:
  "''/tmp/nodes.json'' \<noteq> []
   \<and> files (missing_env ''/tmp/nodes.json'') ''/tmp/nodes.json'' = FileNotFound
   \<and> load_static_nodes (missing_env ''/tmp/nodes.json'') [''alpha''] (Some ''/tmp/nodes.json'')
       = Inr []
   \<and> load_static_nodes (missing_env ''/tmp/nodes.json'') [''alpha''] None
       = Inr [(''alpha'', JArr [JStr ''node://A''])]
   \<and> files (missing_env ''/cfg/static-nodes.json'')
        (os_path_join (DEFAULT_CONFIG_ROOT (missing_env ''/cfg/static-nodes.json''))
           ''static-nodes.json'') = FileNotFound
   \<and> load_static_nodes (missing_env ''/cfg/static-nodes.json'') [''alpha''] None = Inr []
   \<and> load_static_nodes (missing_env ''/cfg/static-nodes.json'') [''alpha''] (Some []) = Inr []
   \<and> load_static_nodes (missing_env ''/cfg/static-nodes.json'') [''alpha''] (Some ''/tmp/nodes.json'')
       = Inr [(''alpha'', JArr [JStr ''node://A''])]"
proof -
  have given: "''/tmp/nodes.json'' \<noteq> []
      \<and> files (missing_env ''/tmp/nodes.json'') ''/tmp/nodes.json'' = FileNotFound"
    by (simp add: missing_env_def)
  have default: "files (missing_env ''/cfg/static-nodes.json'')
        (os_path_join (DEFAULT_CONFIG_ROOT (missing_env ''/cfg/static-nodes.json''))
           ''static-nodes.json'') = FileNotFound"
    by (simp add: missing_env_def os_path_join_def)
  have present: "load_static_nodes (missing_env ''/tmp/nodes.json'') [''alpha''] None
       = Inr [(''alpha'', JArr [JStr ''node://A''])]"
    "load_static_nodes (missing_env ''/cfg/static-nodes.json'') [''alpha''] (Some ''/tmp/nodes.json'')
       = Inr [(''alpha'', JArr [JStr ''node://A''])]"
    by (simp_all add: load_static_nodes_def resolve_filepath_def missing_env_def os_path_join_def
        filter_domains_def)
  from load_static_nodes_file_not_found
         [of "''/tmp/nodes.json''" "missing_env ''/tmp/nodes.json''" "[''alpha'']"]
       load_static_nodes_file_not_found
         [of _ "missing_env ''/cfg/static-nodes.json''" "[''alpha'']"]
       given default present
  show ?thesis by blast
qed

text \<open>
  C5, as stated: valid JSON whose top level is not a mapping makes \<open>load_static_nodes\<close>
  fail with the error it raises for a malformed file. It does not: with an array in the
  file, \<open>json.load\<close> succeeds and it is \<open>static_nodes.items()\<close> that raises, an
  \<open>AttributeError\<close>.
\<close>

theorem load_static_nodes_array_counterexample:
  "load_static_nodes \<lparr>DEFAULT_CONFIG_ROOT = ''/cfg'', TEACHER_NODES = Map.empty,
           files = (\<lambda>p. Parsed (JArr [JStr ''node://A'']))\<rparr> [''alpha''] None
     = Inl AttributeError
   \<and> load_static_nodes \<lparr>DEFAULT_CONFIG_ROOT = ''/cfg'', TEACHER_NODES = Map.empty,
           files = (\<lambda>p. Parsed (JArr [JStr ''node://A'']))\<rparr> [''alpha''] None
     \<noteq> Inl (RuntimeError (invalid_json_message ''/cfg/static-nodes.json''))"
  by (simp add: load_static_nodes_def)

text \<open>
  C5, amended: valid JSON whose top level is not a mapping, in the file that the path
  argument (or, without one, the default location) names, makes \<open>load_static_nodes\<close>
  fail with the \<open>AttributeError\<close> of \<open>static_nodes.items()\<close>, for every requested domain
  set.
\<close>

theorem load_static_nodes_not_a_mapping:
  assumes "\<not> is_mapping j"
  shows "(p \<noteq> [] \<and> files e p = Parsed j \<longrightarrow>
            load_static_nodes e domains (Some p) = Inl AttributeError)
       \<and> (files e (os_path_join (DEFAULT_CONFIG_ROOT e) ''static-nodes.json'') = Parsed j \<longrightarrow>
            load_static_nodes e domains None = Inl AttributeError
            \<and> load_static_nodes e domains (Some []) = Inl AttributeError)"
  using assms by (cases j) (simp_all add: load_static_nodes_def resolve_filepath_def)

theorem load_static_nodes_not_a_mapping_witness:
  "\<not> is_mapping (JArr [JStr ''node://A''])
   \<and> ''/tmp/nodes.json'' \<noteq> []
   \<and> files (array_env ''/tmp/nodes.json'') ''/tmp/nodes.json'' = Parsed (JArr [JStr ''node://A''])
   \<and> load_static_nodes (array_env ''/tmp/nodes.json'') [''alpha'', ''beta'']
        (Some ''/tmp/nodes.json'') = Inl AttributeError
   \<and> load_static_nodes (array_env ''/tmp/nodes.json'') [''alpha'', ''beta''] None
       = Inr [(''alpha'', JArr [JStr ''node://A''])]
   \<and> files (array_env ''/cfg/static-nodes.json'')
        (os_path_join (DEFAULT_CONFIG_ROOT (array_env ''/cfg/static-nodes.json''))
           ''static-nodes.json'') = Parsed (JArr [JStr ''node://A''])
   \<and> load_static_nodes (array_env ''/cfg/static-nodes.json'') [''alpha'', ''beta''] None
       = Inl AttributeError
   \<and> load_static_nodes (array_env ''/cfg/static-nodes.json'') [] (Some [])
       = Inl AttributeError"
proof -
  have shape: "\<not> is_mapping (JArr [JStr ''node://A''])" by simp
  have given: "''/tmp/nodes.json'' \<noteq> []
      \<and> files (array_env ''/tmp/nodes.json'') ''/tmp/nodes.json''
          = Parsed (JArr [JStr ''node://A''])"
    by (simp add: array_env_def)
  have default: "files (array_env ''/cfg/static-nodes.json'')
        (os_path_join (DEFAULT_CONFIG_ROOT (array_env ''/cfg/static-nodes.json''))
           ''static-nodes.json'') = Parsed (JArr [JStr ''node://A''])"
    by (simp add: array_env_def os_path_join_def)
  have present: "load_static_nodes (array_env ''/tmp/nodes.json'') [''alpha'', ''beta''] None
       = Inr [(''alpha'', JArr [JStr ''node://A''])]"
    by (simp add: load_static_nodes_def resolve_filepath_def array_env_def os_path_join_def
        filter_domains_def)
  from load_static_nodes_not_a_mapping
         [OF shape, of "''/tmp/nodes.json''" "array_env ''/tmp/nodes.json''" "[''alpha'', ''beta'']"]
       load_static_nodes_not_a_mapping
         [OF shape, of _ "array_env ''/cfg/static-nodes.json''" "[''alpha'', ''beta'']"]
       load_static_nodes_not_a_mapping
         [OF shape, of _ "array_env ''/cfg/static-nodes.json''" "[]"]
       shape given default present
  show ?thesis by blast
qed


section \<open>Properties of \<open>aggregate_seednode_uris\<close>\<close>

subsection \<open>What the loop does to the store\<close>

lemma deref_update:
  "deref (st[r := xs]) q = (if q = r \<and> r < length st then xs else deref st q)"
  by (simp add: deref_def)

lemma update_deref_Nil: "st[r := deref st r] = st"
  by (cases "r < length st") (simp_all add: deref_def list_update_beyond)

lemma update_deref_update: "st[r := deref (st[r := xs]) r @ ys] = st[r := xs @ ys]"
  by (cases "r < length st") (simp_all add: deref_def list_update_beyond)

lemma extend_for_domain_eq:
  "extend_for_domain e static r d st =
     (case static_uris static d of
        Inl err \<Rightarrow> (Inl err, st)
      | Inr xs \<Rightarrow> (Inr (), st[r := deref st r @ xs @ hardcoded_uris e d]))"
  by (auto simp: extend_for_domain_def static_uris_def hardcoded_uris_def list_extend_def
        update_deref_Nil update_deref_update
      split: option.splits sum.splits)

lemma extend_for_domains_eq:
  "extend_for_domains e static r ds st =
     (case snd (appended e static ds) of None \<Rightarrow> Inr () | Some err \<Rightarrow> Inl err,
      st[r := deref st r @ fst (appended e static ds)])"
proof (induction ds arbitrary: st)
  case Nil
  then show ?case by (simp add: update_deref_Nil)
next
  case (Cons d ds)
  show ?case
    by (simp add: extend_for_domain_eq Cons.IH update_deref_update update_deref_Nil
        split: sum.splits prod.splits)
qed

lemma priority_or_new_deref:
  "priority_or_new hp st = (r, st0) \<Longrightarrow> deref st0 r = contents st hp"
  by (auto simp: priority_or_new_def new_list_def contents_def deref_def nth_append
      split: option.splits if_splits)

lemma priority_or_new_valid:
  "priority_or_new hp st = (r, st0) \<Longrightarrow> r < length st0"
  by (auto simp: priority_or_new_def new_list_def deref_def
      split: option.splits if_splits)

lemma aggregate_eq:
  "aggregate_seednode_uris e ds hp st =
     (case load_static_nodes e ds None of
        Inl err \<Rightarrow> (Inl err, st)
      | Inr static \<Rightarrow>
          (case priority_or_new hp st of
             (r, st0) \<Rightarrow>
               (case snd (appended e static ds) of None \<Rightarrow> Inr r | Some err \<Rightarrow> Inl err,
                st0[r := contents st hp @ fst (appended e static ds)])))"
  by (auto simp: aggregate_seednode_uris_def extend_for_domains_eq priority_or_new_deref
      split: sum.splits prod.splits option.splits)

lemma returned_sequence_aggregate:
  "returned_sequence (aggregate_seednode_uris e ds hp st) =
     (case load_static_nodes e ds None of
        Inl err \<Rightarrow> Inl err
      | Inr static \<Rightarrow>
          (case snd (appended e static ds) of
             Some err \<Rightarrow> Inl err
           | None \<Rightarrow> Inr (contents st hp @ fst (appended e static ds))))"
  by (auto simp: aggregate_eq returned_sequence_def deref_update priority_or_new_valid
      split: sum.splits prod.splits option.splits)

lemma appended_no_error:
  "snd (appended e static ds) = None \<Longrightarrow>
     fst (appended e static ds) = concat (map (domain_uris e static) ds)"
  by (induction ds) (auto simp: domain_uris_def split: sum.splits prod.splits)

lemma aggregate_returns:
  assumes "aggregate_seednode_uris e ds hp st = (Inr r, st')"
  shows "\<exists>static. load_static_nodes e ds None = Inr static
           \<and> deref st' r = contents st hp @ concat (map (domain_uris e static) ds)"
proof -
  from assms
  have "returned_sequence (aggregate_seednode_uris e ds hp st) = Inr (deref st' r)"
    by (simp add: returned_sequence_def)
  then obtain static where "load_static_nodes e ds None = Inr static"
    and ok: "snd (appended e static ds) = None"
    and "deref st' r = contents st hp @ fst (appended e static ds)"
    by (auto simp: returned_sequence_aggregate split: sum.splits option.splits)
  with appended_no_error [OF ok] show ?thesis by simp
qed

lemma aggregate_frame:
  assumes "q < length st" and "highest_priority = Some q \<longrightarrow> deref st q = []"
  shows "deref (snd (aggregate_seednode_uris e domains highest_priority st)) q = deref st q"
  using assms
  by (auto simp: aggregate_eq priority_or_new_def new_list_def deref_update
      split: sum.splits prod.splits option.splits if_splits)
     (simp_all add: deref_def nth_append)

lemma aggregate_alias:
  assumes "deref st p \<noteq> []" and "aggregate_seednode_uris e domains (Some p) st = (Inr r, st')"
  shows "r = p"
  using assms
  by (auto simp: aggregate_eq priority_or_new_def
      split: sum.splits prod.splits if_splits option.splits)

subsection \<open>Evaluating the scenarios\<close>

lemmas eval_defs = scenario_env_def two_domains_env_def scenario_from_teacher_uri_def
  aggregate_seednode_uris_def load_static_nodes_def resolve_filepath_def os_path_join_def
  filter_domains_def priority_or_new_def new_list_def deref_def extend_for_domain_def
  list_extend_def returned_sequence_def contents_def load_seednodes_def emitter_message_def
  static_uris_def hardcoded_uris_def domain_uris_def

lemma scenario_aggregate:
  "aggregate_seednode_uris scenario_env [''alpha''] (Some 0) [[JStr ''node://C'']]
     = (Inr 0, [[JStr ''node://C'', JStr ''node://A'', JStr ''node://B'']])"
  by (simp add: eval_defs)

lemma scenario_aggregate_none:
  "aggregate_seednode_uris scenario_env [''alpha''] None [[]]
     = (Inr 1, [[], [JStr ''node://A'', JStr ''node://B'']])"
  by (simp add: eval_defs)

lemma scenario_static:
  "load_static_nodes scenario_env [''alpha''] None = Inr [(''alpha'', JArr [JStr ''node://A''])]"
  by (simp add: eval_defs)

subsection \<open>The claims\<close>

text \<open>
  C2: whenever \<open>aggregate_seednode_uris\<close> returns, the returned sequence begins with the
  elements of \<open>highest_priority\<close>, verbatim and in their order, and what follows them is,
  domain by domain, the static-file URIs and then the hardcoded URIs.
\<close>

theorem aggregate_starts_with_highest_priority:
  assumes "aggregate_seednode_uris e domains highest_priority st = (Inr uris, st')"
  shows "take (length (contents st highest_priority)) (deref st' uris)
           = contents st highest_priority
         \<and> (\<exists>static_nodes. load_static_nodes e domains None = Inr static_nodes
               \<and> deref st' uris = contents st highest_priority
                    @ concat (map (domain_uris e static_nodes) domains))"
  using aggregate_returns [OF assms] by auto

theorem aggregate_starts_with_highest_priority_witness:
  "aggregate_seednode_uris scenario_env [''alpha''] (Some 0) [[JStr ''node://C'']]
     = (Inr 0, [[JStr ''node://C'', JStr ''node://A'', JStr ''node://B'']])
   \<and> contents [[JStr ''node://C'']] (Some 0) = [JStr ''node://C'']
   \<and> take (length (contents [[JStr ''node://C'']] (Some 0)))
        (deref [[JStr ''node://C'', JStr ''node://A'', JStr ''node://B'']] 0)
       = contents [[JStr ''node://C'']] (Some 0)"
  using aggregate_starts_with_highest_priority [OF scenario_aggregate] scenario_aggregate
  by (simp add: contents_def deref_def)

text \<open>
  C3, as stated: the caller's \<open>highest_priority\<close> list is unchanged after the call. It is
  not: a non-empty list is not copied, the URIs are appended to the caller's own list.
\<close>

theorem aggregate_mutates_argument_counterexample:
  "deref [[JStr ''node://C'']] 0 = [JStr ''node://C'']
   \<and> deref (snd (aggregate_seednode_uris scenario_env [''alpha''] (Some 0)
                   [[JStr ''node://C'']])) 0
       = [JStr ''node://C'', JStr ''node://A'', JStr ''node://B'']"
  by (simp add: eval_defs)

text \<open>
  C3, amended: \<open>aggregate_seednode_uris\<close> leaves every list of the caller unchanged except
  a non-empty \<open>highest_priority\<close>; that list is itself the list returned, extended in place
  with the static-file and hardcoded URIs (no copy is made).
\<close>

theorem aggregate_changes_only_nonempty_priority:
  assumes "q < length st"
  shows "(\<not> (highest_priority = Some q \<and> deref st q \<noteq> []) \<longrightarrow>
            deref (snd (aggregate_seednode_uris e domains highest_priority st)) q = deref st q)
       \<and> (highest_priority = Some q \<and> deref st q \<noteq> []
            \<and> aggregate_seednode_uris e domains highest_priority st = (Inr uris, st') \<longrightarrow>
            uris = q
            \<and> (\<exists>static_nodes. load_static_nodes e domains None = Inr static_nodes
                 \<and> deref st' q = deref st q @ concat (map (domain_uris e static_nodes) domains)))"
proof (intro conjI impI)
  assume "\<not> (highest_priority = Some q \<and> deref st q \<noteq> [])"
  then have "highest_priority = Some q \<longrightarrow> deref st q = []" by blast
  with assms
  show "deref (snd (aggregate_seednode_uris e domains highest_priority st)) q = deref st q"
    by (rule aggregate_frame)
next
  assume a: "highest_priority = Some q \<and> deref st q \<noteq> []
               \<and> aggregate_seednode_uris e domains highest_priority st = (Inr uris, st')"
  then show "uris = q" by (auto dest: aggregate_alias)
  with a aggregate_returns [of e domains highest_priority st uris st']
  show "\<exists>static_nodes. load_static_nodes e domains None = Inr static_nodes
          \<and> deref st' q = deref st q @ concat (map (domain_uris e static_nodes) domains)"
    by (auto simp: contents_def)
qed

theorem aggregate_changes_only_nonempty_priority_witness:
  "(0::nat) < length [[JStr ''node://C'']]
   \<and> deref [[JStr ''node://C'']] 0 \<noteq> []
   \<and> aggregate_seednode_uris scenario_env [''alpha''] (Some 0) [[JStr ''node://C'']]
       = (Inr 0, [[JStr ''node://C'', JStr ''node://A'', JStr ''node://B'']])
   \<and> load_static_nodes scenario_env [''alpha''] None
       = Inr [(''alpha'', JArr [JStr ''node://A''])]
   \<and> deref [[JStr ''node://C'', JStr ''node://A'', JStr ''node://B'']] 0
       = deref [[JStr ''node://C'']] 0
          @ concat (map (domain_uris scenario_env [(''alpha'', JArr [JStr ''node://A''])])
                      [''alpha''])
   \<and> (0::nat) < length [[] :: json list]
   \<and> deref (snd (aggregate_seednode_uris scenario_env [''alpha''] (Some 0) [[]])) 0
       = deref [[]] 0"
proof -
  have valid: "(0::nat) < length [[JStr ''node://C'']]" and valid': "(0::nat) < length [[] :: json list]"
    by simp_all
  have nonempty: "deref [[JStr ''node://C'']] 0 \<noteq> []" and empty: "deref [[]] 0 = []"
    by (simp_all add: deref_def)
  from aggregate_changes_only_nonempty_priority
         [OF valid, of "Some 0" scenario_env "[''alpha'']" 0
            "[[JStr ''node://C'', JStr ''node://A'', JStr ''node://B'']]"]
       nonempty scenario_aggregate scenario_static
  have extended: "deref [[JStr ''node://C'', JStr ''node://A'', JStr ''node://B'']] 0
       = deref [[JStr ''node://C'']] 0
          @ concat (map (domain_uris scenario_env [(''alpha'', JArr [JStr ''node://A''])])
                      [''alpha''])"
    by simp
  from aggregate_changes_only_nonempty_priority
         [OF valid', of "Some 0" scenario_env "[''alpha'']"] empty
  have kept: "deref (snd (aggregate_seednode_uris scenario_env [''alpha''] (Some 0) [[]])) 0
       = deref [[]] 0"
    by simp
  from valid valid' nonempty scenario_aggregate scenario_static extended kept
  show ?thesis by simp
qed

text \<open>
  C4, as stated: two calls with the same domain set, the same \<open>highest_priority\<close>
  contents, the same file and table return identical sequences. The function iterates
  the set it is given, and the same set enumerated in another order gives another
  sequence.
\<close>

theorem aggregate_order_of_domains_counterexample:
  "set [''alpha'', ''beta''] = set [''beta'', ''alpha'']
   \<and> returned_sequence (aggregate_seednode_uris two_domains_env [''alpha'', ''beta''] None [])
       = Inr [JStr ''node://A'', JStr ''node://B'']
   \<and> returned_sequence (aggregate_seednode_uris two_domains_env [''beta'', ''alpha''] None [])
       = Inr [JStr ''node://B'', JStr ''node://A'']"
  by (simp add: eval_defs insert_commute)

lemma filter_domains_set:
  "set ds1 = set ds2 \<Longrightarrow> filter_domains ds1 items = filter_domains ds2 items"
  by (simp add: filter_domains_def)

lemma load_static_nodes_set:
  "set ds1 = set ds2 \<Longrightarrow> load_static_nodes e ds1 fp = load_static_nodes e ds2 fp"
  using filter_domains_set [of ds1 ds2]
  by (simp add: load_static_nodes_def Let_def split: file_state.splits json.splits)

lemma static_uris_error: "static_uris static d = Inl err \<Longrightarrow> err = TypeError"
  by (cases "map_of static d"; cases "the (map_of static d)")
     (auto simp: static_uris_def split: if_splits)

lemma appended_snd:
  "snd (appended e static ds) =
     (if \<exists>d \<in> set ds. static_uris static d = Inl TypeError then Some TypeError else None)"
proof (induction ds)
  case Nil
  then show ?case by simp
next
  case (Cons d ds)
  then show ?case
    by (auto split: sum.splits prod.splits dest: static_uris_error)
qed

lemma mset_concat_map:
  assumes "mset ds1 = mset ds2"
  shows "mset (concat (map f ds1)) = mset (concat (map f ds2))"
proof -
  have "mset (concat (map f ds)) = (\<Sum>d\<in>#mset ds. mset (f d))" for ds
    by (induction ds) simp_all
  with assms show ?thesis by simp
qed

lemma aggregate_same_uris:
  assumes "contents st1 hp1 = contents st2 hp2" and "mset ds1 = mset ds2"
  shows "map_sum id mset (returned_sequence (aggregate_seednode_uris e ds1 hp1 st1))
           = map_sum id mset (returned_sequence (aggregate_seednode_uris e ds2 hp2 st2))"
proof -
  from assms(2) have s: "set ds1 = set ds2" by (rule mset_eq_setD)
  have l: "load_static_nodes e ds1 None = load_static_nodes e ds2 None"
    by (rule load_static_nodes_set [OF s])
  show ?thesis
  proof (cases "load_static_nodes e ds2 None")
    case (Inl err)
    with l show ?thesis by (simp add: returned_sequence_aggregate)
  next
    case (Inr static)
    have sn: "snd (appended e static ds1) = snd (appended e static ds2)"
      by (simp add: appended_snd s)
    show ?thesis
    proof (cases "snd (appended e static ds2)")
      case None
      with sn have "fst (appended e static ds1) = concat (map (domain_uris e static) ds1)"
        "fst (appended e static ds2) = concat (map (domain_uris e static) ds2)"
        by (simp_all add: appended_no_error)
      with None sn Inr l assms(1) mset_concat_map [OF assms(2), of "domain_uris e static"]
      show ?thesis by (simp add: returned_sequence_aggregate)
    next
      case (Some err)
      with sn Inr l show ?thesis by (simp add: returned_sequence_aggregate)
    qed
  qed
qed

text \<open>
  C4, amended: two calls that enumerate the domain set in the same order, with the same
  \<open>highest_priority\<close> contents (in whatever list objects and store), the same file and
  table, fail alike or return identical sequences; under another enumeration of the same
  domains they fail alike or return the same URIs, each as often, in an order that may
  differ.
\<close>

theorem aggregate_deterministic_for_fixed_order:
  assumes "contents st1 hp1 = contents st2 hp2"
  shows "returned_sequence (aggregate_seednode_uris e domains hp1 st1)
           = returned_sequence (aggregate_seednode_uris e domains hp2 st2)
         \<and> (mset domains' = mset domains \<longrightarrow>
              map_sum id mset (returned_sequence (aggregate_seednode_uris e domains' hp1 st1))
                = map_sum id mset (returned_sequence (aggregate_seednode_uris e domains hp2 st2)))"
proof (intro conjI impI)
  from assms
  show "returned_sequence (aggregate_seednode_uris e domains hp1 st1)
           = returned_sequence (aggregate_seednode_uris e domains hp2 st2)"
    by (simp add: returned_sequence_aggregate split: sum.splits option.splits)
next
  assume "mset domains' = mset domains"
  with assms
  show "map_sum id mset (returned_sequence (aggregate_seednode_uris e domains' hp1 st1))
          = map_sum id mset (returned_sequence (aggregate_seednode_uris e domains hp2 st2))"
    by (rule aggregate_same_uris)
qed

theorem aggregate_deterministic_for_fixed_order_witness:
  "contents [[JStr ''node://C'']] (Some 0) = contents [[], [JStr ''node://C'']] (Some 1)
   \<and> returned_sequence (aggregate_seednode_uris two_domains_env [''alpha'', ''beta''] (Some 0)
         [[JStr ''node://C'']])
       = returned_sequence (aggregate_seednode_uris two_domains_env [''alpha'', ''beta''] (Some 1)
         [[], [JStr ''node://C'']])
   \<and> mset [''beta'', ''alpha''] = mset [''alpha'', ''beta'']
   \<and> map_sum id mset (returned_sequence (aggregate_seednode_uris two_domains_env
         [''beta'', ''alpha''] (Some 0) [[JStr ''node://C'']]))
       = map_sum id mset (returned_sequence (aggregate_seednode_uris two_domains_env
         [''alpha'', ''beta''] (Some 1) [[], [JStr ''node://C'']]))"
proof -
  have c: "contents [[JStr ''node://C'']] (Some 0) = contents [[], [JStr ''node://C'']] (Some 1)"
    by (simp add: contents_def deref_def)
  have m: "mset [''beta'', ''alpha''] = mset [''alpha'', ''beta'']"
    by (simp add: add_mset_commute)
  from aggregate_deterministic_for_fixed_order
         [OF c, of two_domains_env "[''alpha'', ''beta'']" "[''beta'', ''alpha'']"] c m
  show ?thesis by blast
qed

text \<open>
  C9: an empty list passed as \<open>highest_priority\<close> is treated as \<open>None\<close>: the two calls
  do the same, return equal sequences, and the caller's empty list is still empty
  afterwards.
\<close>

theorem aggregate_empty_priority_is_none:
  assumes "p < length st" and "deref st p = []"
  shows "aggregate_seednode_uris e domains (Some p) st
           = aggregate_seednode_uris e domains None st
         \<and> returned_sequence (aggregate_seednode_uris e domains (Some p) st)
             = returned_sequence (aggregate_seednode_uris e domains None st)
         \<and> deref (snd (aggregate_seednode_uris e domains (Some p) st)) p = []"
proof -
  have same: "aggregate_seednode_uris e domains (Some p) st
                = aggregate_seednode_uris e domains None st"
    using assms
    by (simp add: aggregate_seednode_uris_def priority_or_new_def split: sum.splits)
  have "deref (snd (aggregate_seednode_uris e domains (Some p) st)) p = deref st p"
    using assms by (intro aggregate_frame) simp_all
  with same assms(2) show ?thesis by simp
qed

theorem aggregate_empty_priority_is_none_witness:
  "(0::nat) < length [[] :: json list] \<and> deref [[]] 0 = []
   \<and> aggregate_seednode_uris scenario_env [''alpha''] (Some 0) [[]]
       = (Inr 1, [[], [JStr ''node://A'', JStr ''node://B'']])
   \<and> aggregate_seednode_uris scenario_env [''alpha''] None [[]]
       = (Inr 1, [[], [JStr ''node://A'', JStr ''node://B'']])
   \<and> deref (snd (aggregate_seednode_uris scenario_env [''alpha''] (Some 0) [[]])) 0 = []"
proof -
  have valid: "(0::nat) < length [[] :: json list]" by simp
  have empty: "deref [[]] 0 = []" by (simp add: deref_def)
  from aggregate_empty_priority_is_none [OF valid empty, of scenario_env "[''alpha'']"]
       scenario_aggregate_none valid empty
  show ?thesis by (simp add: deref_def)
qed

section \<open>Properties of \<open>load_seednodes\<close>\<close>

lemma construct_ursulas_trace:
  "construct_ursulas f ms fo mw reg uris acc s =
     (let tr = attempts (\<lambda>u. f u ms fo mw reg) uris (net s) in
      (case first_failure tr of
         Some err \<Rightarrow> Inl err
       | None \<Rightarrow> Inr (acc @ constructed tr),
       s\<lparr>net := net (snd (construct_ursulas f ms fo mw reg uris acc s)),
          emitter := emitter s @ skip_notices tr\<rparr>))"
proof (induction uris arbitrary: acc s)
  case Nil
  then show ?case by simp
next
  case (Cons u us)
  obtain out w where fu: "f u ms fo mw reg (net s) = (out, w)"
    by (cases "f u ms fo mw reg (net s)")
  show ?case
  proof (cases out)
    case (Constructed t)
    with fu show ?thesis
      by (subst construct_ursulas.simps, subst Cons.IH) (simp add: Let_def split: option.splits)
  next
    case NodeSeemsToBeDown
    with fu show ?thesis
      by (subst construct_ursulas.simps, subst Cons.IH)
         (simp add: Let_def emitter_message_def split: option.splits)
  next
    case NotStaking
    with fu show ?thesis
      by (subst construct_ursulas.simps, subst Cons.IH)
         (simp add: Let_def emitter_message_def split: option.splits)
  next
    case (Failed err)
    with fu show ?thesis by simp
  qed
qed

lemma construct_ursulas_result:
  "fst (construct_ursulas f ms fo mw reg uris acc s) =
     (case first_failure (attempts (\<lambda>u. f u ms fo mw reg) uris (net s)) of
        Some err \<Rightarrow> Inl err
      | None \<Rightarrow> Inr (acc @ constructed (attempts (\<lambda>u. f u ms fo mw reg) uris (net s))))"
  by (subst construct_ursulas_trace) (simp add: Let_def)

lemma construct_ursulas_emitter:
  "emitter (snd (construct_ursulas f ms fo mw reg uris acc s)) =
     emitter s @ skip_notices (attempts (\<lambda>u. f u ms fo mw reg) uris (net s))"
  by (subst construct_ursulas_trace) (simp add: Let_def)

lemma attempts_all:
  "first_failure (attempts f uris w) = None \<Longrightarrow> map fst (attempts f uris w) = uris"
proof (induction uris arbitrary: w)
  case Nil
  then show ?case by simp
next
  case (Cons u us)
  obtain out w1 where fu: "f u w = (out, w1)" by (cases "f u w")
  with Cons show ?case by (cases out) auto
qed

text \<open>
  C1: with \<open>tr\<close> the attempts made on the aggregated list, in its order,
  \<open>load_seednodes\<close> returns the teachers constructed, in that order; a URI whose
  construction raises \<open>NodeSeemsToBeDown\<close> or \<open>Teacher.NotStaking\<close> is skipped with its
  notice and the next URI is tried, so that without another failure every URI of the
  list is tried; any other failure is the outcome of the call.
\<close>

theorem load_seednodes_order:
  assumes "aggregate_seednode_uris e network_domains teacher_uris (store s) = (Inr uris, st)"
    and "tr = attempts (\<lambda>uri. from_teacher_uri uri min_stake federated_only
                                 network_middleware registry) (deref st uris) (net s)"
    and "out = load_seednodes e from_teacher_uri min_stake federated_only network_domains
                 network_middleware teacher_uris registry s"
  shows "fst out = (case first_failure tr of
                      Some err \<Rightarrow> Inl err
                    | None \<Rightarrow> Inr (constructed tr))
         \<and> (first_failure tr = None \<longrightarrow> map fst tr = deref st uris)
         \<and> emitter (snd out)
             = emitter s @ [(Connecting, Some ''yellow'')] @ skip_notices tr
                 @ (if first_failure tr = None \<and> constructed tr = []
                    then [(NoDomainPeers (comma_join network_domains), None)] else [])"
proof (cases "deref st uris = []")
  case True
  with assms show ?thesis
    by (simp add: load_seednodes_def emitter_message_def)
next
  case False
  define s2 where "s2 = s\<lparr>emitter := emitter s @ [(Connecting, Some ''yellow'')], store := st\<rparr>"
  define loop where "loop = construct_ursulas from_teacher_uri min_stake federated_only
                              network_middleware registry (deref st uris) [] s2"
  have res: "fst loop = (case first_failure tr of
                           Some err \<Rightarrow> Inl err
                         | None \<Rightarrow> Inr (constructed tr))"
    unfolding loop_def
    by (simp add: construct_ursulas_result assms(2) s2_def split: option.splits)
  have em: "emitter (snd loop) = emitter s @ [(Connecting, Some ''yellow'')] @ skip_notices tr"
    unfolding loop_def by (simp add: construct_ursulas_emitter assms(2) s2_def)
  have all: "first_failure tr = None \<longrightarrow> map fst tr = deref st uris"
    unfolding assms(2) by (rule impI) (rule attempts_all)
  from False assms(1) have out_eq:
    "out = (case loop of
              (Inl err, s3) \<Rightarrow> (Inl err, s3)
            | (Inr teacher_nodes, s3) \<Rightarrow>
                (Inr teacher_nodes,
                 if teacher_nodes = []
                 then s3\<lparr>emitter := emitter_message (NoDomainPeers (comma_join network_domains))
                                        None (emitter s3)\<rparr>
                 else s3))"
    by (simp add: assms(3) load_seednodes_def emitter_message_def loop_def s2_def)
  obtain res3 s3 where l: "loop = (res3, s3)" by (cases loop)
  show ?thesis
  proof (cases "first_failure tr")
    case None
    with res em all l show ?thesis
      by (simp add: out_eq emitter_message_def)
  next
    case (Some err)
    with res em all l show ?thesis
      by (simp add: out_eq)
  qed
qed

theorem load_seednodes_order_witness:
  "aggregate_seednode_uris scenario_env [''alpha''] (Some 0)
       (store \<lparr>store = [[JStr ''node://C'']], emitter = [], net = (0::nat)\<rparr>)
     = (Inr 0, [[JStr ''node://C'', JStr ''node://A'', JStr ''node://B'']])
   \<and> attempts (\<lambda>uri. scenario_from_teacher_uri uri 0 False () ())
       (deref [[JStr ''node://C'', JStr ''node://A'', JStr ''node://B'']] 0) 0
     = [(JStr ''node://C'', Constructed ''node://C''), (JStr ''node://A'', NodeSeemsToBeDown),
        (JStr ''node://B'', Constructed ''node://B'')]
   \<and> fst (load_seednodes scenario_env scenario_from_teacher_uri 0 False [''alpha''] ()
            (Some 0) () \<lparr>store = [[JStr ''node://C'']], emitter = [], net = (0::nat)\<rparr>)
     = Inr [''node://C'', ''node://B'']
   \<and> emitter (snd (load_seednodes scenario_env scenario_from_teacher_uri 0 False [''alpha''] ()
            (Some 0) () \<lparr>store = [[JStr ''node://C'']], emitter = [], net = (0::nat)\<rparr>))
     = [(Connecting, Some ''yellow''), (FailedToConnect (JStr ''node://A''), None)]"
proof -
  have agg: "aggregate_seednode_uris scenario_env [''alpha''] (Some 0)
       (store \<lparr>store = [[JStr ''node://C'']], emitter = [], net = (0::nat)\<rparr>)
     = (Inr 0, [[JStr ''node://C'', JStr ''node://A'', JStr ''node://B'']])"
    using scenario_aggregate by simp
  have tr: "attempts (\<lambda>uri. scenario_from_teacher_uri uri 0 False () ())
       (deref [[JStr ''node://C'', JStr ''node://A'', JStr ''node://B'']] 0) 0
     = [(JStr ''node://C'', Constructed ''node://C''), (JStr ''node://A'', NodeSeemsToBeDown),
        (JStr ''node://B'', Constructed ''node://B'')]"
    by (simp add: deref_def scenario_from_teacher_uri_def)
  from load_seednodes_order [OF agg refl refl, of scenario_from_teacher_uri 0 False "()" "()"]
  show ?thesis
    unfolding session.simps tr using agg by simp
qed

section \<open>Properties of \<open>determine_external_ip_address\<close>\<close>

lemma click_prompt_accepted:
  "click_prompt t lines = Inr v \<Longrightarrow> \<exists>line \<in> set lines. t line = Some v"
  by (induction lines) (auto split: if_splits option.splits)

text \<open>
  C6, as stated: when the query fails and \<open>force\<close> is false, the call fails. With a
  status other than 200 it does not: \<open>UnknownIPAddress\<close> is caught, re-raised only under
  \<open>force\<close>, and the function returns \<open>None\<close>.
\<close>

theorem determine_external_ip_address_unforced_counterexample:
  "determine_external_ip_address (echo_service 500 []) (\<lambda>m. Inr True) (\<lambda>line. Some line)
      [] [] False
     = (Inr None, [], [])"
  by (simp add: determine_external_ip_address_def get_external_ip_from_centralized_source_def
      echo_service_def)

text \<open>
  C6, amended: when the service answers with a status other than 200 and \<open>force\<close> is
  false, \<open>determine_external_ip_address\<close> completes and returns \<open>None\<close>, with no notice
  and no prompt; when the request itself raises (anything but \<open>UnknownIPAddress\<close>), that
  exception reaches the caller, whatever \<open>force\<close> is.
\<close>

theorem determine_external_ip_address_query_failed:
  "(requests_get ''https://ifconfig.me/'' = Inr ip_request \<and> status_code ip_request \<noteq> 200 \<longrightarrow>
      determine_external_ip_address requests_get click_confirm IPV4_ADDRESS typed em False
        = (Inr None, em, []))
   \<and> (requests_get ''https://ifconfig.me/'' = Inl err \<and> (\<forall>code. err \<noteq> UnknownIPAddress code) \<longrightarrow>
      determine_external_ip_address requests_get click_confirm IPV4_ADDRESS typed em force
        = (Inl err, em, []))"
  by (cases err)
     (auto simp: determine_external_ip_address_def get_external_ip_from_centralized_source_def)

theorem determine_external_ip_address_query_failed_witness:
  "echo_service 503 ''busy'' ''https://ifconfig.me/'' = Inr \<lparr>status_code = 503, text' = ''busy''\<rparr>
   \<and> status_code \<lparr>status_code = 503, text' = ''busy''\<rparr> \<noteq> 200
   \<and> determine_external_ip_address (echo_service 503 ''busy'') (\<lambda>m. Inr True)
        (\<lambda>line. Some line) [] [] False = (Inr None, [], [])
   \<and> (\<lambda>url. Inl (Raised ''ConnectionError'')) ''https://ifconfig.me/''
        = (Inl (Raised ''ConnectionError'') :: error + response)
   \<and> (\<forall>code. Raised ''ConnectionError'' \<noteq> UnknownIPAddress code)
   \<and> determine_external_ip_address (\<lambda>url. Inl (Raised ''ConnectionError'')) (\<lambda>m. Inr True)
        (\<lambda>line. Some line) [] [] False = (Inl (Raised ''ConnectionError''), [], [])"
  using determine_external_ip_address_query_failed
          [of "echo_service 503 ''busy''" "\<lparr>status_code = 503, text' = ''busy''\<rparr>"
              "\<lambda>m. Inr True" "\<lambda>line. Some line" "[]" "[]"]
        determine_external_ip_address_query_failed
          [of "\<lambda>url. Inl (Raised ''ConnectionError'')" _ _ _ _ _ "Raised ''ConnectionError''"
              False]
  by (simp add: echo_service_def)

text \<open>
  C7: under \<open>force\<close>, an answer with status 200 makes \<open>determine_external_ip_address\<close>
  return the body as it is, emit the warning, and show no prompt; an answer with any
  other status makes it fail with \<open>UnknownIPAddress\<close>.
\<close>

theorem determine_external_ip_address_forced:
  assumes "requests_get ''https://ifconfig.me/'' = Inr ip_request"
  shows "(status_code ip_request = 200 \<longrightarrow>
            determine_external_ip_address requests_get click_confirm IPV4_ADDRESS typed em True
              = (Inr (Some (text' ip_request)),
                 em @ [(ForceDetectWarning (text' ip_request), Some ''yellow'')], []))
       \<and> (status_code ip_request \<noteq> 200 \<longrightarrow>
            determine_external_ip_address requests_get click_confirm IPV4_ADDRESS typed em True
              = (Inl (UnknownIPAddress (status_code ip_request)), em, []))"
  using assms
  by (simp add: determine_external_ip_address_def get_external_ip_from_centralized_source_def
      emitter_message_def)

theorem determine_external_ip_address_forced_witness:
  "echo_service 200 ''203.0.113.7'' ''https://ifconfig.me/''
     = Inr \<lparr>status_code = 200, text' = ''203.0.113.7''\<rparr>
   \<and> determine_external_ip_address (echo_service 200 ''203.0.113.7'') (\<lambda>m. Inr False)
        (\<lambda>line. Some line) [] [] True
       = (Inr (Some ''203.0.113.7''), [(ForceDetectWarning ''203.0.113.7'', Some ''yellow'')], [])
   \<and> echo_service 500 [] ''https://ifconfig.me/'' = Inr \<lparr>status_code = 500, text' = []\<rparr>
   \<and> determine_external_ip_address (echo_service 500 []) (\<lambda>m. Inr False)
        (\<lambda>line. Some line) [] [] True
       = (Inl (UnknownIPAddress 500), [], [])"
proof -
  have ok: "echo_service 200 ''203.0.113.7'' ''https://ifconfig.me/''
              = Inr \<lparr>status_code = 200, text' = ''203.0.113.7''\<rparr>"
    and ko: "echo_service 500 [] ''https://ifconfig.me/''
              = Inr \<lparr>status_code = 500, text' = []\<rparr>"
    by (simp_all add: echo_service_def)
  from determine_external_ip_address_forced
         [of "echo_service 200 ''203.0.113.7''" "\<lparr>status_code = 200, text' = ''203.0.113.7''\<rparr>"
            "\<lambda>m. Inr False" "\<lambda>line. Some line" "[]" "[]", OF ok]
       determine_external_ip_address_forced
         [of "echo_service 500 []" "\<lparr>status_code = 500, text' = []\<rparr>"
            "\<lambda>m. Inr False" "\<lambda>line. Some line" "[]" "[]", OF ko]
       ok ko
  show ?thesis by simp
qed

text \<open>
  C10: the address taken from the service is never checked. Whatever body comes with
  status 200, it is returned as it is under \<open>force\<close>, and without \<open>force\<close> when the user
  confirms it; only when the user rejects it is the value returned one that
  \<open>IPV4_ADDRESS\<close> accepted, from a line the user typed.
\<close>

theorem auto_detected_address_not_validated:
  assumes "requests_get ''https://ifconfig.me/'' = Inr ip_request"
    and "status_code ip_request = 200"
  shows "fst (determine_external_ip_address requests_get click_confirm IPV4_ADDRESS typed em True)
           = Inr (Some (text' ip_request))
       \<and> (click_confirm (ConfirmAddress (text' ip_request)) = Inr True \<longrightarrow>
            fst (determine_external_ip_address requests_get click_confirm IPV4_ADDRESS typed em
                   False)
              = Inr (Some (text' ip_request)))
       \<and> (click_confirm (ConfirmAddress (text' ip_request)) = Inr False \<longrightarrow>
            (\<forall>v. fst (determine_external_ip_address requests_get click_confirm IPV4_ADDRESS typed
                        em False) = Inr (Some v)
                 \<longrightarrow> (\<exists>line \<in> set typed. IPV4_ADDRESS line = Some v)))"
  using assms
  by (auto simp: determine_external_ip_address_def get_external_ip_from_centralized_source_def
      split: sum.splits dest: click_prompt_accepted)

theorem auto_detected_address_not_validated_witness:
  "echo_service 200 ''not an address'' ''https://ifconfig.me/''
     = Inr \<lparr>status_code = 200, text' = ''not an address''\<rparr>
   \<and> fst (determine_external_ip_address (echo_service 200 ''not an address'') (\<lambda>m. Inr True)
        (\<lambda>line. None) [''10.0.0.1''] [] True) = Inr (Some ''not an address'')
   \<and> fst (determine_external_ip_address (echo_service 200 ''not an address'') (\<lambda>m. Inr True)
        (\<lambda>line. None) [''10.0.0.1''] [] False) = Inr (Some ''not an address'')
   \<and> fst (determine_external_ip_address (echo_service 200 ''not an address'') (\<lambda>m. Inr False)
        (\<lambda>line. if line = ''10.0.0.1'' then Some line else None) [''ten'', ''10.0.0.1''] []
        False) = Inr (Some ''10.0.0.1'')
   \<and> (\<exists>line \<in> set [''ten'', ''10.0.0.1''].
         (\<lambda>line. if line = ''10.0.0.1'' then Some line else None) line = Some ''10.0.0.1'')"
proof -
  have ok: "echo_service 200 ''not an address'' ''https://ifconfig.me/''
              = Inr \<lparr>status_code = 200, text' = ''not an address''\<rparr>"
    by (simp add: echo_service_def)
  have typed: "fst (determine_external_ip_address (echo_service 200 ''not an address'')
        (\<lambda>m. Inr False) (\<lambda>line. if line = ''10.0.0.1'' then Some line else None)
        [''ten'', ''10.0.0.1''] [] False) = Inr (Some ''10.0.0.1'')"
    by (simp add: determine_external_ip_address_def
        get_external_ip_from_centralized_source_def echo_service_def)
  from auto_detected_address_not_validated
         [of "echo_service 200 ''not an address''"
            "\<lparr>status_code = 200, text' = ''not an address''\<rparr>"
            "\<lambda>m. Inr True" "\<lambda>line. None" "[''10.0.0.1'']" "[]", OF ok]
       auto_detected_address_not_validated
         [of "echo_service 200 ''not an address''"
            "\<lparr>status_code = 200, text' = ''not an address''\<rparr>"
            "\<lambda>m. Inr False" "\<lambda>line. if line = ''10.0.0.1'' then Some line else None"
            "[''ten'', ''10.0.0.1'']" "[]", OF ok]
       ok typed
  show ?thesis by simp
qed

end
